theory Spec2Isabelle
  imports Main "HOL-Library.Word"
begin

section \<open>Strings and time\<close>

text \<open>
  A JavaScript string is a sequence of UTF-16 code units. Timestamps (\<open>Date\<close> values)
  are their \<open>getTime()\<close>: integer milliseconds since the epoch. The clock read by
  \<open>new Date()\<close> is an explicit argument \<open>now\<close> of every operation that reads it.
\<close>

type_synonym jsstring = "16 word list"

text \<open>ASCII literals as code units, for concrete inputs.\<close>

definition js :: "string \<Rightarrow> jsstring" where
  "js s = map of_char s"

text \<open>
  \<open>String.prototype.trim\<close> strips, at both ends, the code units of ECMAScript's
  WhiteSpace and LineTerminator productions: TAB, LF, VT, FF, CR, SP, NBSP, U+1680,
  U+2000 to U+200A, LS, PS, U+202F, U+205F, U+3000 and the BOM.
\<close>

definition isWhiteSpace :: "16 word \<Rightarrow> bool" where
  "isWhiteSpace c = (c \<in> set [0x9, 0xA, 0xB, 0xC, 0xD, 0x20, 0xA0, 0x1680,
     0x2000, 0x2001, 0x2002, 0x2003, 0x2004, 0x2005, 0x2006, 0x2007, 0x2008, 0x2009, 0x200A,
     0x2028, 0x2029, 0x202F, 0x205F, 0x3000, 0xFEFF])"

definition trim :: "jsstring \<Rightarrow> jsstring" where
  "trim s = rev (dropWhile isWhiteSpace (rev (dropWhile isWhiteSpace s)))"

section \<open>Data model\<close>

text \<open>
  A snapshot is the object literal built by \<open>createSnapshot\<close>. A note is the Mongoose
  document the routes and the history service work on, with the fields they read or write.
  \<open>updates\<close> is the second argument of \<open>applyUpdate\<close>: each field is a string or
  \<open>undefined\<close> (\<open>None\<close>).
\<close>

record snapshot =
  title :: jsstring
  content :: jsstring
  editedAt :: int

record Note =
  title :: jsstring
  content :: jsstring
  versions :: "snapshot list"
  redoStack :: "snapshot list"
  updatedAt :: int
  isDeleted :: bool
  deletedAt :: "int option"

record updates =
  title :: "jsstring option"
  content :: "jsstring option"

text \<open>\<open>throw new Error(message)\<close>.\<close>

datatype error = Error string

section \<open>services/noteHistory.service.js\<close>

definition MAX_HISTORY :: nat where
  "MAX_HISTORY = 20"

definition createSnapshot :: "int \<Rightarrow> Note \<Rightarrow> snapshot" where
  "createSnapshot now n =
     \<lparr>snapshot.title = Note.title n, snapshot.content = Note.content n, editedAt = now\<rparr>"

text \<open>\<open>stack.shift()\<close> removes the first element, once.\<close>

definition limitStack :: "'a list \<Rightarrow> 'a list" where
  "limitStack stack = (if length stack > MAX_HISTORY then tl stack else stack)"

text \<open>
  The two statements \<open>stack.push(s); limitStack(stack);\<close>, which the service always
  runs together (in \<open>applyUpdate\<close>, \<open>undo\<close> and \<open>redo\<close>).
\<close>

definition push :: "'a list \<Rightarrow> 'a \<Rightarrow> 'a list" where
  "push stack s = limitStack (stack @ [s])"

definition hasTitleChange :: "Note \<Rightarrow> updates \<Rightarrow> bool" where
  "hasTitleChange n u =
     (case updates.title u of None \<Rightarrow> False | Some t \<Rightarrow> trim t \<noteq> Note.title n)"

definition hasContentChange :: "Note \<Rightarrow> updates \<Rightarrow> bool" where
  "hasContentChange n u =
     (case updates.content u of None \<Rightarrow> False | Some c \<Rightarrow> trim c \<noteq> Note.content n)"

text \<open>
  \<open>applyUpdate\<close> mutates the note in place and returns a boolean: the model returns the
  boolean and the note as it stands afterwards.
\<close>

definition applyUpdate :: "int \<Rightarrow> Note \<Rightarrow> updates \<Rightarrow> bool \<times> Note" where
  "applyUpdate now n u =
     (if \<not> hasTitleChange n u \<and> \<not> hasContentChange n u then (False, n)
      else
        let n1 = n\<lparr>versions := push (versions n) (createSnapshot now n)\<rparr>;
            n2 = n1\<lparr>redoStack := []\<rparr>;
            n3 = (if hasTitleChange n u
                  then n2\<lparr>Note.title := trim (the (updates.title u))\<rparr> else n2);
            n4 = (if hasContentChange n u
                  then n3\<lparr>Note.content := trim (the (updates.content u))\<rparr> else n3)
        in (True, n4))"

text \<open>
  \<open>undo\<close> and \<open>redo\<close> either throw before touching the note or mutate it: the model
  returns the thrown error or \<open>()\<close>, and the note as it stands afterwards.
  \<open>pop()\<close> takes the last element.
\<close>

definition undo :: "int \<Rightarrow> Note \<Rightarrow> (error + unit) \<times> Note" where
  "undo now n =
     (if length (versions n) = 0 then (Inl (Error ''No hay cambios para deshacer''), n)
      else
        let n1 = n\<lparr>redoStack := push (redoStack n) (createSnapshot now n)\<rparr>;
            previous = last (versions n1);
            n2 = n1\<lparr>versions := butlast (versions n1)\<rparr>
        in (Inr (), n2\<lparr>Note.title := snapshot.title previous,
                        Note.content := snapshot.content previous\<rparr>))"

definition redo :: "int \<Rightarrow> Note \<Rightarrow> (error + unit) \<times> Note" where
  "redo now n =
     (if length (redoStack n) = 0 then (Inl (Error ''No hay cambios para rehacer''), n)
      else
        let n1 = n\<lparr>versions := push (versions n) (createSnapshot now n)\<rparr>;
            next = last (redoStack n1);
            n2 = n1\<lparr>redoStack := butlast (redoStack n1)\<rparr>
        in (Inr (), n2\<lparr>Note.title := snapshot.title next,
                        Note.content := snapshot.content next\<rparr>))"

section \<open>The earlier history service (unnamed part 001)\<close>

text \<open>
  Its \<open>createSnapshot\<close>, \<open>limitStack\<close>, \<open>undo\<close> and \<open>redo\<close> are those above, statement for
  statement; its \<open>applyUpdate\<close> has one more test and returns nothing.
\<close>

definition applyUpdate_part_001 :: "int \<Rightarrow> Note \<Rightarrow> updates \<Rightarrow> Note" where
  "applyUpdate_part_001 now n u =
     (let isFirstEdit = (length (versions n) = 0) in
      if \<not> hasTitleChange n u \<and> \<not> hasContentChange n u \<and> \<not> isFirstEdit then n
      else
        let n1 = n\<lparr>versions := push (versions n) (createSnapshot now n)\<rparr>;
            n2 = n1\<lparr>redoStack := []\<rparr>;
            n3 = (if hasTitleChange n u
                  then n2\<lparr>Note.title := trim (the (updates.title u))\<rparr> else n2);
            n4 = (if hasContentChange n u
                  then n3\<lparr>Note.content := trim (the (updates.content u))\<rparr> else n3)
        in n4)"

section \<open>routes/notes.routes.js\<close>

text \<open>
  The values a JSON request body can hold in a field: absent (\<open>undefined\<close>), \<open>null\<close>,
  a boolean, a number (integer-valued ones are modelled) or a string. Arrays and objects
  are outside the model.
\<close>

datatype jsval = JUndefined | JNull | JBool bool | JNum int | JStr jsstring

record body =
  title :: jsval
  content :: jsval
  lastKnownUpdate :: jsval

text \<open>
  What a handler leaves behind: the status of the response, the document as it stands in
  memory when the handler ends (\<open>None\<close> when \<open>findById\<close> found none), and whether the
  handler handed it to \<open>save()\<close>. The persistence layer itself (\<open>findById\<close>, \<open>save\<close>) is
  not part of the sources: \<open>findById\<close>'s answer is the handlers' argument \<open>found\<close>, and
  \<open>save\<close> is taken to succeed.
\<close>

record outcome =
  status :: nat
  doc :: "Note option"
  saved :: bool

text \<open>JavaScript truthiness, as tested by \<open>lastKnownUpdate && \<dots>\<close>.\<close>

fun truthy :: "jsval \<Rightarrow> bool" where
  "truthy JUndefined = False"
| "truthy JNull = False"
| "truthy (JBool b) = b"
| "truthy (JNum k) = (k \<noteq> 0)"
| "truthy (JStr s) = (s \<noteq> [])"

text \<open>
  \<open>new Date(v).getTime()\<close>, with \<open>None\<close> for \<open>NaN\<close> (an invalid date). A string goes
  through the runtime's date parser, the parameter \<open>parse\<close>; a number is a time value when
  it lies within 8.64e15 milliseconds of the epoch.
\<close>

fun dateTime :: "(jsstring \<Rightarrow> int option) \<Rightarrow> jsval \<Rightarrow> int option" where
  "dateTime parse JUndefined = None"
| "dateTime parse JNull = Some 0"
| "dateTime parse (JBool b) = Some (if b then 1 else 0)"
| "dateTime parse (JNum k) = (if \<bar>k\<bar> \<le> 8640000000000000 then Some k else None)"
| "dateTime parse (JStr s) = parse s"

text \<open>The middleware \<open>loadNote\<close>: \<open>None\<close> when it answers 404 itself.\<close>

definition loadNote :: "Note option \<Rightarrow> Note option" where
  "loadNote found =
     (case found of None \<Rightarrow> None | Some n \<Rightarrow> if isDeleted n then None else Some n)"

text \<open>
  \<open>!x?.trim()\<close> in \<open>router.post('/')\<close>: the status answered when the field is refused,
  or the trimmed string. \<open>undefined\<close> and \<open>null\<close> stop the optional chain; any other
  value that is no string has no \<open>trim\<close>, and the \<open>TypeError\<close> ends in the handler's
  \<open>catch\<close> (500).
\<close>

fun requiredText :: "jsval \<Rightarrow> nat + jsstring" where
  "requiredText JUndefined = Inl 400"
| "requiredText JNull = Inl 400"
| "requiredText (JStr s) = (if trim s = [] then Inl 400 else Inr (trim s))"
| "requiredText (JBool b) = Inl 500"
| "requiredText (JNum k) = Inl 500"

text \<open>
  Modelled from the spec: \<open>models/Note.js\<close>, the Mongoose schema behind \<open>Note.create\<close>, is
  not among the sources. The spec has the Version Store created empty alongside its document
  and \<open>updatedAt\<close> set by creation; a new note is not deleted.
\<close>

definition newNote :: "int \<Rightarrow> jsstring \<Rightarrow> jsstring \<Rightarrow> Note" where
  "newNote now t c = \<lparr>Note.title = t, Note.content = c, versions = [], redoStack = [],
     updatedAt = now, isDeleted = False, deletedAt = None\<rparr>"

text \<open>\<open>router.post('/')\<close>.\<close>

definition createNote :: "int \<Rightarrow> body \<Rightarrow> outcome" where
  "createNote now b =
     (case requiredText (body.title b) of
        Inl st \<Rightarrow> \<lparr>status = st, doc = None, saved = False\<rparr>
      | Inr t \<Rightarrow>
          (case requiredText (body.content b) of
             Inl st \<Rightarrow> \<lparr>status = st, doc = None, saved = False\<rparr>
           | Inr c \<Rightarrow> \<lparr>status = 201, doc = Some (newNote now t c), saved = True\<rparr>))"

text \<open>
  \<open>x !== undefined && !x.trim()\<close> in \<open>router.patch('/:id')\<close>: the status answered when
  the test stops the handler (400 for a blank string, 500 for the \<open>TypeError\<close> of a value
  without \<open>trim\<close>), \<open>None\<close> when it lets the field through.
\<close>

fun fieldCheck :: "jsval \<Rightarrow> nat option" where
  "fieldCheck JUndefined = None"
| "fieldCheck (JStr s) = (if trim s = [] then Some 400 else None)"
| "fieldCheck JNull = Some 500"
| "fieldCheck (JBool b) = Some 500"
| "fieldCheck (JNum k) = Some 500"

text \<open>A field that passed \<open>fieldCheck\<close>, as \<open>applyUpdate\<close> receives it.\<close>

fun toText :: "jsval \<Rightarrow> jsstring option" where
  "toText (JStr s) = Some s"
| "toText JUndefined = None"
| "toText JNull = None"
| "toText (JBool b) = None"
| "toText (JNum k) = None"

text \<open>\<open>router.patch('/:id')\<close>, after \<open>validateObjectId\<close>.\<close>

definition patchNote :: "(jsstring \<Rightarrow> int option) \<Rightarrow> int \<Rightarrow> Note option \<Rightarrow> body \<Rightarrow> outcome" where
  "patchNote parse now found b =
     (case loadNote found of
        None \<Rightarrow> \<lparr>status = 404, doc = found, saved = False\<rparr>
      | Some n \<Rightarrow>
          if body.title b = JUndefined \<and> body.content b = JUndefined
          then \<lparr>status = 400, doc = Some n, saved = False\<rparr>
          else if truthy (lastKnownUpdate b)
                  \<and> dateTime parse (lastKnownUpdate b) \<noteq> Some (updatedAt n)
          then \<lparr>status = 409, doc = Some n, saved = False\<rparr>
          else
            (case fieldCheck (body.title b) of
               Some st \<Rightarrow> \<lparr>status = st, doc = Some n, saved = False\<rparr>
             | None \<Rightarrow>
                 (case fieldCheck (body.content b) of
                    Some st \<Rightarrow> \<lparr>status = st, doc = Some n, saved = False\<rparr>
                  | None \<Rightarrow>
                      \<lparr>status = 200,
                       doc = Some (snd (applyUpdate now n
                         \<lparr>updates.title = toText (body.title b),
                          updates.content = toText (body.content b)\<rparr>)),
                       saved = True\<rparr>)))"

text \<open>
  \<open>router.patch('/:id/undo')\<close> and \<open>router.patch('/:id/redo')\<close>: the error thrown by the
  service skips \<open>save()\<close> and is answered 400.
\<close>

definition undoNote :: "int \<Rightarrow> Note option \<Rightarrow> outcome" where
  "undoNote now found =
     (case loadNote found of
        None \<Rightarrow> \<lparr>status = 404, doc = found, saved = False\<rparr>
      | Some n \<Rightarrow>
          (case undo now n of
             (Inl e, n') \<Rightarrow> \<lparr>status = 400, doc = Some n', saved = False\<rparr>
           | (Inr _, n') \<Rightarrow> \<lparr>status = 200, doc = Some n', saved = True\<rparr>))"

definition redoNote :: "int \<Rightarrow> Note option \<Rightarrow> outcome" where
  "redoNote now found =
     (case loadNote found of
        None \<Rightarrow> \<lparr>status = 404, doc = found, saved = False\<rparr>
      | Some n \<Rightarrow>
          (case redo now n of
             (Inl e, n') \<Rightarrow> \<lparr>status = 400, doc = Some n', saved = False\<rparr>
           | (Inr _, n') \<Rightarrow> \<lparr>status = 200, doc = Some n', saved = True\<rparr>))"

text \<open>\<open>router.patch('/:id/trash')\<close>.\<close>

definition trashNote :: "int \<Rightarrow> Note option \<Rightarrow> outcome" where
  "trashNote now found =
     (case loadNote found of
        None \<Rightarrow> \<lparr>status = 404, doc = found, saved = False\<rparr>
      | Some n \<Rightarrow>
          \<lparr>status = 200, doc = Some (n\<lparr>isDeleted := True, deletedAt := Some now\<rparr>),
           saved = True\<rparr>)"

text \<open>\<open>router.patch('/:id/restore')\<close>, which does its own lookup.\<close>

definition restoreNote :: "Note option \<Rightarrow> outcome" where
  "restoreNote found =
     (case found of
        None \<Rightarrow> \<lparr>status = 404, doc = found, saved = False\<rparr>
      | Some n \<Rightarrow>
          if \<not> isDeleted n then \<lparr>status = 404, doc = found, saved = False\<rparr>
          else \<lparr>status = 200, doc = Some (n\<lparr>isDeleted := False, deletedAt := None\<rparr>),
                saved = True\<rparr>)"

section \<open>Sequences of history operations\<close>

text \<open>
  One call of the history service on a note, with the clock reading at the call, and the
  note left by a sequence of such calls (a call that throws leaves the note as it was).
\<close>

datatype operation = Edit updates | Undo | Redo

fun step :: "Note \<Rightarrow> int \<times> operation \<Rightarrow> Note" where
  "step n (now, Edit u) = snd (applyUpdate now n u)"
| "step n (now, Undo) = snd (undo now n)"
| "step n (now, Redo) = snd (redo now n)"

definition run :: "Note \<Rightarrow> (int \<times> operation) list \<Rightarrow> Note" where
  "run n ops = foldl step n ops"

text \<open>Trim-stability of a note's editable fields, and of a snapshot's.\<close>

definition trimStable :: "Note \<Rightarrow> bool" where
  "trimStable n = (trim (Note.title n) = Note.title n \<and> trim (Note.content n) = Note.content n)"

definition snapshotStable :: "snapshot \<Rightarrow> bool" where
  "snapshotStable s = (trim (snapshot.title s) = snapshot.title s
     \<and> trim (snapshot.content s) = snapshot.content s)"

definition historyStable :: "Note \<Rightarrow> bool" where
  "historyStable n = (trimStable n \<and> list_all snapshotStable (versions n)
     \<and> list_all snapshotStable (redoStack n))"

section \<open>Concrete inputs\<close>

definition note_A1 :: Note where
  "note_A1 = \<lparr>Note.title = js ''A'', Note.content = js ''1'', versions = [], redoStack = [],
     updatedAt = 1000, isDeleted = False, deletedAt = None\<rparr>"

definition note_B1 :: Note where
  "note_B1 = \<lparr>Note.title = js ''B'', Note.content = js ''1'',
     versions = [\<lparr>snapshot.title = js ''A'', snapshot.content = js ''1'', editedAt = 2000\<rparr>],
     redoStack = [], updatedAt = 2500, isDeleted = False, deletedAt = None\<rparr>"

definition title_B :: updates where
  "title_B = \<lparr>updates.title = Some (js '' B ''), updates.content = None\<rparr>"

definition same_A1 :: updates where
  "same_A1 = \<lparr>updates.title = Some (js ''A  ''), updates.content = Some (js '' 1'')\<rparr>"

definition body_A1 :: body where
  "body_A1 = \<lparr>body.title = JStr (js '' A''), body.content = JStr (js ''1 ''),
     lastKnownUpdate = JUndefined\<rparr>"

text \<open>A date parser that knows one ISO string, as \<open>Date.parse\<close> reads it.\<close>

definition parse_iso :: "jsstring \<Rightarrow> int option" where
  "parse_iso s = (if s = js ''1970-01-01T00:00:00.500Z'' then Some 500 else None)"

definition body_stale :: body where
  "body_stale = \<lparr>body.title = JStr (js ''B''), body.content = JUndefined,
     lastKnownUpdate = JStr (js ''1970-01-01T00:00:00.500Z'')\<rparr>"

definition body_epoch :: body where
  "body_epoch = \<lparr>body.title = JStr (js ''B''), body.content = JUndefined,
     lastKnownUpdate = JNum 0\<rparr>"

definition body_no_fields :: body where
  "body_no_fields = \<lparr>body.title = JUndefined, body.content = JUndefined,
     lastKnownUpdate = JNum 999\<rparr>"

definition body_absent :: body where
  "body_absent = \<lparr>body.title = JStr (js ''B''), body.content = JUndefined,
     lastKnownUpdate = JUndefined\<rparr>"

section \<open>The bounded stack\<close>

lemma MAX_HISTORY_pos: "0 < MAX_HISTORY"
  by (simp add: MAX_HISTORY_def)

lemma limitStack_snoc:
  "limitStack (stack @ [s]) =
     (if length stack < MAX_HISTORY then stack @ [s] else tl stack @ [s])"
  by (cases stack) (auto simp: limitStack_def MAX_HISTORY_def)

lemma push_last: "last (push stack s) = s"
  by (simp add: push_def limitStack_snoc)

lemma push_not_Nil: "push stack s \<noteq> []"
  by (simp add: push_def limitStack_snoc)

lemma push_Nil: "push [] s = [s]"
  by (simp add: push_def limitStack_def MAX_HISTORY_pos)

lemma foldl_push: "foldl push [] xs = drop (length xs - MAX_HISTORY) xs"
proof (induction xs rule: rev_induct)
  case Nil
  then show ?case by simp
next
  case (snoc x xs)
  let ?k = "length xs - MAX_HISTORY"
  have step: "foldl push [] (xs @ [x]) = push (drop ?k xs) x"
    using snoc by simp
  show ?case
  proof (cases "length xs < MAX_HISTORY")
    case True
    then show ?thesis
      unfolding step by (simp add: push_def limitStack_snoc)
  next
    case False
    then have full: "length (drop ?k xs) = MAX_HISTORY"
      by simp
    have "push (drop ?k xs) x = tl (drop ?k xs) @ [x]"
      using full by (simp add: push_def limitStack_snoc)
    also have "\<dots> = drop (Suc ?k) xs @ [x]"
      by (simp add: drop_Suc tl_drop)
    also have "\<dots> = drop (length (xs @ [x]) - MAX_HISTORY) (xs @ [x])"
      using False MAX_HISTORY_pos by (simp add: Suc_diff_le not_less)
    finally show ?thesis
      unfolding step .
  qed
qed

text \<open>
  C3: pushing the snapshots \<open>xs\<close> one after the other onto an empty stack leaves at most
  20 of them, namely the last 20 (all of them when there are fewer) in the order they were
  pushed, the oldest gone first. \<open>xs\<close> is any sequence, so this holds after each push.
  Pushing 21 snapshots leaves the 2nd to the 21st.
\<close>

theorem push_bounded_fifo:
  "length (foldl push [] xs) \<le> 20
   \<and> foldl push [] xs = drop (length xs - 20) xs
   \<and> (length xs = 21 \<longrightarrow> foldl push [] xs = tl xs)"
  by (simp add: foldl_push MAX_HISTORY_def drop_Suc)

theorem push_bounded_fifo_witness:
  "length [1 :: nat, 2, 3, 4, 5, 6, 7, 8, 9, 10, 11, 12, 13, 14, 15, 16, 17, 18, 19, 20, 21] = 21
   \<and> foldl push [] [1 :: nat, 2, 3, 4, 5, 6, 7, 8, 9, 10, 11, 12, 13, 14, 15, 16, 17, 18, 19, 20, 21]
     = [2, 3, 4, 5, 6, 7, 8, 9, 10, 11, 12, 13, 14, 15, 16, 17, 18, 19, 20, 21]"
  using push_bounded_fifo
    [of "[1 :: nat, 2, 3, 4, 5, 6, 7, 8, 9, 10, 11, 12, 13, 14, 15, 16, 17, 18, 19, 20, 21]"]
  by simp

section \<open>What the operations do to the note\<close>

lemma applyUpdate_stacks:
  "hasTitleChange n u \<or> hasContentChange n u \<Longrightarrow>
     versions (snd (applyUpdate now n u)) = push (versions n) (createSnapshot now n)
     \<and> redoStack (snd (applyUpdate now n u)) = []"
  by (auto simp: applyUpdate_def Let_def)

lemma undo_restores:
  "versions n \<noteq> [] \<Longrightarrow>
     fst (undo now n) = Inr ()
     \<and> Note.title (snd (undo now n)) = snapshot.title (last (versions n))
     \<and> Note.content (snd (undo now n)) = snapshot.content (last (versions n))
     \<and> redoStack (snd (undo now n)) = push (redoStack n) (createSnapshot now n)
     \<and> versions (snd (undo now n)) = butlast (versions n)"
  by (simp add: undo_def Let_def)

lemma redo_restores:
  "redoStack n \<noteq> [] \<Longrightarrow>
     fst (redo now n) = Inr ()
     \<and> Note.title (snd (redo now n)) = snapshot.title (last (redoStack n))
     \<and> Note.content (snd (redo now n)) = snapshot.content (last (redoStack n))
     \<and> versions (snd (redo now n)) = push (versions n) (createSnapshot now n)
     \<and> redoStack (snd (redo now n)) = butlast (redoStack n)"
  by (simp add: redo_def Let_def)

section \<open>Undo/redo round trip\<close>

text \<open>
  C1: let an edit that changes the title or the content (after trim) take the note from
  \<open>S0\<close> to \<open>S1\<close>. Then \<open>undo\<close> succeeds and leaves the title and content of \<open>S0\<close>, and the
  \<open>redo\<close> that follows succeeds and leaves the title and content of \<open>S1\<close>.
\<close>

theorem undo_redo_round_trip:
  assumes changed: "hasTitleChange S0 u \<or> hasContentChange S0 u"
    and S1: "S1 = snd (applyUpdate t1 S0 u)"
    and S2: "S2 = snd (undo t2 S1)"
    and S3: "S3 = snd (redo t3 S2)"
  shows "fst (undo t2 S1) = Inr ()
    \<and> Note.title S2 = Note.title S0 \<and> Note.content S2 = Note.content S0
    \<and> fst (redo t3 S2) = Inr ()
    \<and> Note.title S3 = Note.title S1 \<and> Note.content S3 = Note.content S1"
proof -
  have v1: "versions S1 = push (versions S0) (createSnapshot t1 S0)" and r1: "redoStack S1 = []"
    using applyUpdate_stacks [OF changed, of t1] by (simp_all add: S1)
  have ne1: "versions S1 \<noteq> []"
    by (simp add: v1 push_not_Nil)
  have top1: "last (versions S1) = createSnapshot t1 S0"
    by (simp add: v1 push_last)
  note u = undo_restores [OF ne1, of t2, folded S2]
  have restored: "Note.title S2 = Note.title S0 \<and> Note.content S2 = Note.content S0"
    using u by (simp add: top1 createSnapshot_def)
  have r2: "redoStack S2 = [createSnapshot t2 S1]"
    using u by (simp add: r1 push_Nil)
  then have ne2: "redoStack S2 \<noteq> []"
    by simp
  note r = redo_restores [OF ne2, of t3, folded S3]
  have replayed: "Note.title S3 = Note.title S1 \<and> Note.content S3 = Note.content S1"
    using r by (simp add: r2 createSnapshot_def)
  from u r restored replayed show ?thesis by simp
qed

theorem undo_redo_round_trip_witness:
  "(hasTitleChange note_A1 title_B \<or> hasContentChange note_A1 title_B)
   \<and> fst (undo 3000 (snd (applyUpdate 2000 note_A1 title_B))) = Inr ()
   \<and> Note.title (snd (undo 3000 (snd (applyUpdate 2000 note_A1 title_B)))) = js ''A''
   \<and> Note.title (snd (redo 4000 (snd (undo 3000 (snd (applyUpdate 2000 note_A1 title_B))))))
     = js ''B''"
proof -
  have changed: "hasTitleChange note_A1 title_B \<or> hasContentChange note_A1 title_B"
    by (simp add: hasTitleChange_def note_A1_def title_B_def js_def trim_def isWhiteSpace_def)
  have S1: "Note.title (snd (applyUpdate 2000 note_A1 title_B)) = js ''B''"
    by (simp add: applyUpdate_def hasTitleChange_def hasContentChange_def note_A1_def
        title_B_def js_def trim_def isWhiteSpace_def Let_def)
  have S0: "Note.title note_A1 = js ''A''"
    by (simp add: note_A1_def)
  from changed S0 S1
    undo_redo_round_trip [OF changed refl refl refl,
      where ?t1.0 = 2000 and ?t2.0 = 3000 and ?t3.0 = 4000]
  show ?thesis by simp
qed

section \<open>Empty history\<close>

text \<open>
  C4: \<open>undo\<close> throws its error exactly when the undo stack (\<open>versions\<close>) is empty, \<open>redo\<close>
  throws its error exactly when the redo stack is empty, and a call that throws leaves the
  whole note as it was.
\<close>

theorem undo_redo_EmptyHistory:
  "(fst (undo now n) = Inl (Error ''No hay cambios para deshacer'') \<longleftrightarrow> versions n = [])
   \<and> (fst (redo now n) = Inl (Error ''No hay cambios para rehacer'') \<longleftrightarrow> redoStack n = [])
   \<and> (versions n = [] \<longrightarrow> snd (undo now n) = n)
   \<and> (redoStack n = [] \<longrightarrow> snd (redo now n) = n)"
  by (simp add: undo_def redo_def Let_def)

theorem undo_redo_EmptyHistory_witness:
  "versions note_A1 = [] \<and> redoStack note_A1 = []
   \<and> undo 2000 note_A1 = (Inl (Error ''No hay cambios para deshacer''), note_A1)
   \<and> redo 2000 note_A1 = (Inl (Error ''No hay cambios para rehacer''), note_A1)"
proof -
  have v: "versions note_A1 = []" and r: "redoStack note_A1 = []"
    by (simp_all add: note_A1_def)
  from v r undo_redo_EmptyHistory [of 2000 note_A1] show ?thesis
    by (simp add: prod_eq_iff)
qed

section \<open>Redo invalidation\<close>

text \<open>
  C2: whatever the redo stack held, when \<open>applyUpdate\<close> returns true the note's redo stack
  is empty afterwards.
\<close>

theorem applyUpdate_clears_redoStack:
  "fst (applyUpdate now n u) \<Longrightarrow> redoStack (snd (applyUpdate now n u)) = []"
  by (auto simp: applyUpdate_def Let_def split: if_splits)

theorem applyUpdate_clears_redoStack_witness:
  "fst (applyUpdate 2000 (note_A1\<lparr>redoStack := [createSnapshot 1500 note_A1]\<rparr>) title_B)
   \<and> redoStack (snd (applyUpdate 2000
        (note_A1\<lparr>redoStack := [createSnapshot 1500 note_A1]\<rparr>) title_B)) = []"
proof -
  have changed: "fst (applyUpdate 2000 (note_A1\<lparr>redoStack := [createSnapshot 1500 note_A1]\<rparr>) title_B)"
    by (simp add: applyUpdate_def hasTitleChange_def hasContentChange_def note_A1_def
        title_B_def js_def trim_def isWhiteSpace_def Let_def)
  from changed applyUpdate_clears_redoStack [OF changed] show ?thesis by simp
qed

section \<open>No-op edit\<close>

text \<open>
  C6: when every proposed field that is present equals, after trim, the note's current
  value, \<open>applyUpdate\<close> returns false and the note is exactly as before: no snapshot
  pushed, neither stack changed, no field changed.
\<close>

theorem applyUpdate_noop:
  assumes "\<forall>t. updates.title u = Some t \<longrightarrow> trim t = Note.title n"
    and "\<forall>c. updates.content u = Some c \<longrightarrow> trim c = Note.content n"
  shows "applyUpdate now n u = (False, n)"
  using assms
  by (simp add: applyUpdate_def hasTitleChange_def hasContentChange_def split: option.splits)

theorem applyUpdate_noop_witness:
  "updates.title same_A1 = Some (js ''A  '') \<and> trim (js ''A  '') = Note.title note_A1
   \<and> updates.content same_A1 = Some (js '' 1'') \<and> trim (js '' 1'') = Note.content note_A1
   \<and> applyUpdate 2000 note_A1 same_A1 = (False, note_A1)"
proof -
  have t: "\<forall>t. updates.title same_A1 = Some t \<longrightarrow> trim t = Note.title note_A1"
    by (simp add: same_A1_def note_A1_def js_def trim_def isWhiteSpace_def)
  have c: "\<forall>c. updates.content same_A1 = Some c \<longrightarrow> trim c = Note.content note_A1"
    by (simp add: same_A1_def note_A1_def js_def trim_def isWhiteSpace_def)
  have given: "updates.title same_A1 = Some (js ''A  '')
      \<and> updates.content same_A1 = Some (js '' 1'')"
    by (simp add: same_A1_def)
  from given t c applyUpdate_noop [OF t c, of 2000] show ?thesis by simp
qed

section \<open>Optimistic conflict check\<close>

lemma fieldCheck_status: "fieldCheck v = Some st \<Longrightarrow> st = 400 \<or> st = 500"
  by (cases v) (auto split: if_splits)

text \<open>
  C5, as stated, fails on the code at two requests against a note whose \<open>updatedAt\<close> is
  1000. The first carries a title and \<open>lastKnownUpdate = 0\<close>: the value is provided and is
  another time than \<open>updatedAt\<close>, yet \<open>0\<close> is falsy, the check is skipped and the edit is
  applied and saved (200). The second carries \<open>lastKnownUpdate = 999\<close> and neither title nor
  content: it is answered 400 by the test that precedes the conflict check, not 409.
\<close>

theorem patchNote_conflict_counterexample:
  "lastKnownUpdate body_epoch = JNum 0
   \<and> dateTime parse_iso (lastKnownUpdate body_epoch) \<noteq> Some (updatedAt note_A1)
   \<and> status (patchNote parse_iso 2000 (Some note_A1) body_epoch) = 200
   \<and> saved (patchNote parse_iso 2000 (Some note_A1) body_epoch)
   \<and> map_option Note.title (doc (patchNote parse_iso 2000 (Some note_A1) body_epoch)) = Some (js ''B'')
   \<and> lastKnownUpdate body_no_fields = JNum 999
   \<and> dateTime parse_iso (lastKnownUpdate body_no_fields) \<noteq> Some (updatedAt note_A1)
   \<and> status (patchNote parse_iso 2000 (Some note_A1) body_no_fields) = 400"
  by (simp add: patchNote_def loadNote_def body_epoch_def body_no_fields_def note_A1_def
      applyUpdate_def hasTitleChange_def hasContentChange_def js_def trim_def isWhiteSpace_def
      Let_def)

text \<open>
  C5, amended: for an edit request on a loaded note that carries a title or a content, if
  \<open>lastKnownUpdate\<close> is truthy and its date is not the note's \<open>updatedAt\<close> (an invalid
  date included), the answer is 409, the note is as it was and \<open>save()\<close> is not reached, so
  \<open>applyUpdate\<close> is not invoked. If \<open>lastKnownUpdate\<close> is absent or otherwise falsy there
  is no conflict check: the answer is never 409, and when the fields present pass
  validation the edit is applied and saved (200).
\<close>

theorem patchNote_conflict:
  assumes loaded: "loadNote found = Some n"
    and fields: "body.title b \<noteq> JUndefined \<or> body.content b \<noteq> JUndefined"
  shows "(truthy (lastKnownUpdate b) \<and> dateTime parse (lastKnownUpdate b) \<noteq> Some (updatedAt n)
            \<longrightarrow> patchNote parse now found b = \<lparr>status = 409, doc = Some n, saved = False\<rparr>)
       \<and> (\<not> truthy (lastKnownUpdate b)
            \<longrightarrow> status (patchNote parse now found b) \<noteq> 409
              \<and> (fieldCheck (body.title b) = None \<and> fieldCheck (body.content b) = None
                   \<longrightarrow> patchNote parse now found b =
                     \<lparr>status = 200,
                      doc = Some (snd (applyUpdate now n
                        \<lparr>updates.title = toText (body.title b),
                         updates.content = toText (body.content b)\<rparr>)),
                      saved = True\<rparr>))"
  using loaded fields
  by (auto simp: patchNote_def dest: fieldCheck_status split: option.splits)

theorem patchNote_conflict_witness:
  "loadNote (Some note_A1) = Some note_A1
   \<and> truthy (lastKnownUpdate body_stale)
   \<and> dateTime parse_iso (lastKnownUpdate body_stale) = Some 500
   \<and> patchNote parse_iso 2000 (Some note_A1) body_stale
       = \<lparr>status = 409, doc = Some note_A1, saved = False\<rparr>
   \<and> \<not> truthy (lastKnownUpdate body_absent)
   \<and> status (patchNote parse_iso 2000 (Some note_A1) body_absent) = 200
   \<and> saved (patchNote parse_iso 2000 (Some note_A1) body_absent)"
proof -
  have loaded: "loadNote (Some note_A1) = Some note_A1"
    by (simp add: loadNote_def note_A1_def)
  have f1: "body.title body_stale \<noteq> JUndefined \<or> body.content body_stale \<noteq> JUndefined"
    by (simp add: body_stale_def)
  have f2: "body.title body_absent \<noteq> JUndefined \<or> body.content body_absent \<noteq> JUndefined"
    by (simp add: body_absent_def)
  have stale: "truthy (lastKnownUpdate body_stale)
      \<and> dateTime parse_iso (lastKnownUpdate body_stale) = Some 500"
    by (simp add: body_stale_def parse_iso_def js_def)
  have at: "updatedAt note_A1 = 1000"
    by (simp add: note_A1_def)
  have absent: "\<not> truthy (lastKnownUpdate body_absent)
      \<and> fieldCheck (body.title body_absent) = None \<and> fieldCheck (body.content body_absent) = None"
    by (simp add: body_absent_def js_def trim_def isWhiteSpace_def)
  from loaded stale at absent
    patchNote_conflict [OF loaded f1, of parse_iso 2000]
    patchNote_conflict [OF loaded f2, of parse_iso 2000]
  show ?thesis by simp
qed

section \<open>The timestamp \<open>updatedAt\<close>\<close>

text \<open>
  C7, as stated, fails on the code: an \<open>applyUpdate\<close> that changes the title returns true
  and leaves \<open>updatedAt\<close> as it was.
\<close>

theorem applyUpdate_updatedAt_counterexample:
  "fst (applyUpdate 2000 note_A1 title_B)
   \<and> Note.title (snd (applyUpdate 2000 note_A1 title_B)) \<noteq> Note.title note_A1
   \<and> updatedAt (snd (applyUpdate 2000 note_A1 title_B)) = updatedAt note_A1"
  by (simp add: applyUpdate_def hasTitleChange_def hasContentChange_def note_A1_def
      title_B_def js_def trim_def isWhiteSpace_def Let_def)

text \<open>
  C7, amended: \<open>applyUpdate\<close>, \<open>undo\<close> and \<open>redo\<close> never write \<open>updatedAt\<close>, and the
  handlers of the edit, undo and redo routes hand the document to \<open>save()\<close> with the
  \<open>updatedAt\<close> it was loaded with. Refreshing the timestamp is left to the persistence
  layer behind \<open>save()\<close>.
\<close>

theorem history_leaves_updatedAt:
  "updatedAt (snd (applyUpdate now n u)) = updatedAt n
   \<and> updatedAt (snd (undo now n)) = updatedAt n
   \<and> updatedAt (snd (redo now n)) = updatedAt n
   \<and> map_option updatedAt (doc (patchNote parse now found b)) = map_option updatedAt found
   \<and> map_option updatedAt (doc (undoNote now found)) = map_option updatedAt found
   \<and> map_option updatedAt (doc (redoNote now found)) = map_option updatedAt found"
  by (auto simp: applyUpdate_def undo_def redo_def patchNote_def undoNote_def redoNote_def
      loadNote_def Let_def split: option.splits sum.splits prod.splits if_splits)

section \<open>The two versions of \<open>applyUpdate\<close>\<close>

text \<open>
  C8: with the same clock reading, the earlier \<open>applyUpdate\<close> and the current one leave the
  same note whenever the undo stack is not empty or a field changes after trim. On the
  remaining inputs (empty undo stack, no field changed: the earlier version's first edit)
  the earlier version pushes one snapshot and clears the redo stack, the current one leaves
  the note as it was, and the two results differ.
\<close>

theorem applyUpdate_versions_agree:
  "(versions n \<noteq> [] \<or> hasTitleChange n u \<or> hasContentChange n u
      \<longrightarrow> applyUpdate_part_001 now n u = snd (applyUpdate now n u))
   \<and> (versions n = [] \<and> \<not> hasTitleChange n u \<and> \<not> hasContentChange n u
      \<longrightarrow> applyUpdate_part_001 now n u = n\<lparr>versions := [createSnapshot now n], redoStack := []\<rparr>
          \<and> snd (applyUpdate now n u) = n
          \<and> versions (applyUpdate_part_001 now n u) \<noteq> versions (snd (applyUpdate now n u)))"
  by (auto simp: applyUpdate_part_001_def applyUpdate_def Let_def push_Nil)

theorem applyUpdate_versions_agree_witness:
  "hasTitleChange note_A1 title_B
   \<and> applyUpdate_part_001 2000 note_A1 title_B = snd (applyUpdate 2000 note_A1 title_B)
   \<and> (versions note_A1 = [] \<and> \<not> hasTitleChange note_A1 same_A1 \<and> \<not> hasContentChange note_A1 same_A1)
   \<and> applyUpdate_part_001 2000 note_A1 same_A1
       = note_A1\<lparr>versions := [createSnapshot 2000 note_A1], redoStack := []\<rparr>
   \<and> snd (applyUpdate 2000 note_A1 same_A1) = note_A1"
proof -
  have changed: "hasTitleChange note_A1 title_B"
    by (simp add: hasTitleChange_def note_A1_def title_B_def js_def trim_def isWhiteSpace_def)
  have first: "versions note_A1 = []"
    by (simp add: note_A1_def)
  have same: "\<not> hasTitleChange note_A1 same_A1 \<and> \<not> hasContentChange note_A1 same_A1"
    by (simp add: hasTitleChange_def hasContentChange_def note_A1_def same_A1_def js_def
        trim_def isWhiteSpace_def)
  from changed first same
    applyUpdate_versions_agree [of note_A1 title_B 2000]
    applyUpdate_versions_agree [of note_A1 same_A1 2000]
  show ?thesis by simp
qed

section \<open>Trash and restore\<close>

text \<open>
  C9: whatever they answer, the trash and restore handlers leave a document that differs
  from the one found at most in \<open>isDeleted\<close> and \<open>deletedAt\<close>; and for a note that is not
  deleted, trash followed by restore succeeds twice and ends with the same title, content,
  \<open>versions\<close> and \<open>redoStack\<close>.
\<close>

theorem trash_restore_keeps_history:
  "(\<exists>d t. doc (trashNote now (Some n)) = Some (n\<lparr>isDeleted := d, deletedAt := t\<rparr>))
   \<and> (\<exists>d t. doc (restoreNote (Some n)) = Some (n\<lparr>isDeleted := d, deletedAt := t\<rparr>))
   \<and> (\<not> isDeleted n \<longrightarrow>
        trashNote now (Some n)
          = \<lparr>status = 200, doc = Some (n\<lparr>isDeleted := True, deletedAt := Some now\<rparr>), saved = True\<rparr>
        \<and> restoreNote (doc (trashNote now (Some n)))
          = \<lparr>status = 200, doc = Some (n\<lparr>isDeleted := False, deletedAt := None\<rparr>), saved = True\<rparr>)"
proof -
  have same: "n = n\<lparr>isDeleted := isDeleted n, deletedAt := deletedAt n\<rparr>"
    by simp
  have t: "\<exists>d t. doc (trashNote now (Some n)) = Some (n\<lparr>isDeleted := d, deletedAt := t\<rparr>)"
  proof (cases "isDeleted n")
    case True
    then have "doc (trashNote now (Some n)) = Some n"
      by (simp add: trashNote_def loadNote_def)
    with same show ?thesis by metis
  next
    case False
    then show ?thesis
      by (auto simp: trashNote_def loadNote_def)
  qed
  have r: "\<exists>d t. doc (restoreNote (Some n)) = Some (n\<lparr>isDeleted := d, deletedAt := t\<rparr>)"
  proof (cases "isDeleted n")
    case False
    then have "doc (restoreNote (Some n)) = Some n"
      by (simp add: restoreNote_def)
    with same show ?thesis by metis
  next
    case True
    then show ?thesis
      by (auto simp: restoreNote_def)
  qed
  have c: "\<not> isDeleted n \<longrightarrow>
        trashNote now (Some n)
          = \<lparr>status = 200, doc = Some (n\<lparr>isDeleted := True, deletedAt := Some now\<rparr>), saved = True\<rparr>
        \<and> restoreNote (doc (trashNote now (Some n)))
          = \<lparr>status = 200, doc = Some (n\<lparr>isDeleted := False, deletedAt := None\<rparr>), saved = True\<rparr>"
    by (simp add: trashNote_def restoreNote_def loadNote_def)
  from t r c show ?thesis by blast
qed

theorem trash_restore_keeps_history_witness:
  "\<not> isDeleted note_B1
   \<and> restoreNote (doc (trashNote 5000 (Some note_B1)))
       = \<lparr>status = 200, doc = Some note_B1, saved = True\<rparr>
   \<and> versions note_B1 = [\<lparr>snapshot.title = js ''A'', snapshot.content = js ''1'', editedAt = 2000\<rparr>]"
proof -
  have live: "\<not> isDeleted note_B1"
    by (simp add: note_B1_def)
  have same: "note_B1\<lparr>isDeleted := False, deletedAt := None\<rparr> = note_B1"
    by (simp add: note_B1_def)
  have v: "versions note_B1
      = [\<lparr>snapshot.title = js ''A'', snapshot.content = js ''1'', editedAt = 2000\<rparr>]"
    by (simp add: note_B1_def)
  from live trash_restore_keeps_history [of 5000 note_B1]
  have "restoreNote (doc (trashNote 5000 (Some note_B1)))
      = \<lparr>status = 200, doc = Some (note_B1\<lparr>isDeleted := False, deletedAt := None\<rparr>),
         saved = True\<rparr>"
    by blast
  then have cycle: "restoreNote (doc (trashNote 5000 (Some note_B1)))
      = \<lparr>status = 200, doc = Some note_B1, saved = True\<rparr>"
    unfolding same .
  from live cycle v show ?thesis by (intro conjI)
qed

section \<open>Trim-stability\<close>

lemma dropWhile_rev_dropWhile:
  "dropWhile P (rev (dropWhile P (rev (dropWhile P xs)))) = rev (dropWhile P (rev (dropWhile P xs)))"
proof (cases "dropWhile P (rev (dropWhile P xs)) = []")
  case True
  show ?thesis unfolding True by simp
next
  case False
  let ?a = "dropWhile P xs"
  let ?b = "dropWhile P (rev ?a)"
  have a: "?a \<noteq> []"
  proof
    assume e: "?a = []"
    have "?b = []" unfolding e by simp
    with False show False by contradiction
  qed
  from a have hd_a: "\<not> P (hd ?a)" by (rule hd_dropWhile)
  have "hd ?a \<in> set (rev ?a)" using a by simp
  then have "last ?b = last (rev ?a)" using hd_a by (rule dropWhile_last)
  then have "last ?b = hd ?a" using a by (simp add: last_rev)
  then have "hd (rev ?b) = hd ?a" using False by (simp add: hd_rev)
  then show ?thesis using hd_a by (simp add: dropWhile_eq_self_iff)
qed

lemma trim_idem: "trim (trim s) = trim s"
proof -
  let ?b = "dropWhile isWhiteSpace (rev (dropWhile isWhiteSpace s))"
  have "dropWhile isWhiteSpace ?b = ?b"
    by (simp add: dropWhile_eq_self_iff hd_dropWhile)
  then show ?thesis
    by (simp add: trim_def dropWhile_rev_dropWhile)
qed

lemma list_all_tl: "list_all P xs \<Longrightarrow> list_all P (tl xs)"
  by (cases xs) simp_all

lemma list_all_butlast: "list_all P xs \<Longrightarrow> list_all P (butlast xs)"
  by (auto simp: list_all_iff dest: in_set_butlastD)

lemma list_all_last: "list_all P xs \<Longrightarrow> xs \<noteq> [] \<Longrightarrow> P (last xs)"
  by (simp add: list_all_iff)

lemma list_all_push: "list_all P stack \<Longrightarrow> P s \<Longrightarrow> list_all P (push stack s)"
  by (simp add: push_def limitStack_def list_all_tl)

lemma snapshotStable_createSnapshot: "trimStable n \<Longrightarrow> snapshotStable (createSnapshot now n)"
  by (simp add: trimStable_def snapshotStable_def createSnapshot_def)

lemma historyStable_applyUpdate:
  assumes "historyStable n"
  shows "historyStable (snd (applyUpdate now n u))"
proof -
  from assms have s: "snapshotStable (createSnapshot now n)"
    by (simp add: historyStable_def snapshotStable_createSnapshot)
  with assms have p: "list_all snapshotStable (push (versions n) (createSnapshot now n))"
    by (simp add: historyStable_def list_all_push)
  from assms p show ?thesis
    by (simp add: applyUpdate_def historyStable_def trimStable_def trim_idem Let_def)
qed

lemma historyStable_undo:
  assumes "historyStable n"
  shows "historyStable (snd (undo now n))"
proof (cases "versions n = []")
  case True
  with assms show ?thesis by (simp add: undo_def)
next
  case False
  from assms have s: "snapshotStable (createSnapshot now n)"
    by (simp add: historyStable_def snapshotStable_createSnapshot)
  with assms have p: "list_all snapshotStable (push (redoStack n) (createSnapshot now n))"
    by (simp add: historyStable_def list_all_push)
  from assms False have l: "snapshotStable (last (versions n))"
    by (simp add: historyStable_def list_all_last)
  from assms have b: "list_all snapshotStable (butlast (versions n))"
    by (simp add: historyStable_def list_all_butlast)
  from False p l b show ?thesis
    by (simp add: undo_def historyStable_def trimStable_def snapshotStable_def Let_def)
qed

lemma historyStable_redo:
  assumes "historyStable n"
  shows "historyStable (snd (redo now n))"
proof (cases "redoStack n = []")
  case True
  with assms show ?thesis by (simp add: redo_def)
next
  case False
  from assms have s: "snapshotStable (createSnapshot now n)"
    by (simp add: historyStable_def snapshotStable_createSnapshot)
  with assms have p: "list_all snapshotStable (push (versions n) (createSnapshot now n))"
    by (simp add: historyStable_def list_all_push)
  from assms False have l: "snapshotStable (last (redoStack n))"
    by (simp add: historyStable_def list_all_last)
  from assms have b: "list_all snapshotStable (butlast (redoStack n))"
    by (simp add: historyStable_def list_all_butlast)
  from False p l b show ?thesis
    by (simp add: redo_def historyStable_def trimStable_def snapshotStable_def Let_def)
qed

lemma historyStable_step: "historyStable n \<Longrightarrow> historyStable (step n tick)"
proof (cases tick)
  case (Pair now call)
  assume "historyStable n"
  then show ?thesis
    unfolding Pair
    by (cases call) (simp_all add: historyStable_applyUpdate historyStable_undo historyStable_redo)
qed

lemma historyStable_run: "historyStable n \<Longrightarrow> historyStable (run n ops)"
  unfolding run_def
  by (induction ops arbitrary: n) (simp_all add: historyStable_step)

lemma requiredText_stable: "requiredText v = Inr t \<Longrightarrow> trim t = t"
  by (cases v) (auto simp: trim_idem split: if_splits)

lemma historyStable_createNote:
  "doc (createNote now b) = Some n \<Longrightarrow> historyStable n"
  by (auto simp: createNote_def newNote_def historyStable_def trimStable_def
      dest: requiredText_stable split: sum.splits)

text \<open>
  C10: a note created by the create route has a title and a content equal to their own
  trim, and so has the note left by any sequence of \<open>applyUpdate\<close>, \<open>undo\<close> and \<open>redo\<close>
  calls on it.
\<close>

theorem trim_stable_invariant:
  assumes "doc (createNote now b) = Some n0"
  shows "trimStable n0 \<and> trimStable (run n0 ops)"
proof -
  from assms have "historyStable n0"
    by (rule historyStable_createNote)
  then have "historyStable n0 \<and> historyStable (run n0 ops)"
    by (simp add: historyStable_run)
  then show ?thesis
    by (simp add: historyStable_def)
qed

theorem trim_stable_invariant_witness:
  "doc (createNote 1000 body_A1) = Some note_A1
   \<and> trimStable note_A1
   \<and> trimStable (run note_A1 [(2000, Edit title_B), (3000, Undo), (4000, Redo), (5000, Undo)])"
proof -
  have c: "doc (createNote 1000 body_A1) = Some note_A1"
    by (simp add: createNote_def newNote_def body_A1_def note_A1_def js_def trim_def
        isWhiteSpace_def)
  from c trim_stable_invariant [OF c] show ?thesis by simp
qed

end
